theory Spec2Isabelle
  imports Main "HOL-Library.AList" "HOL-Library.Sublist"
begin

section \<open>Syntax tree (the parser's nodes)\<close>

text \<open>
  The parser module is not part of the sources; the builder only reads the attributes
  used below. Every node is a \<open>Node\<close> with a token (whose span goes into diagnostics)
  and a list of children; the subclass adds its own attributes. The scalar of a numeric
  literal is never computed with by the builder, so its type is the parameter \<open>'n\<close>.
\<close>

type_synonym span = "(int \<times> int) \<times> (int \<times> int)"

datatype 'n kind =
    NCreate string "string option"      \<comment> \<open>\<open>Create\<close>: \<open>element\<close>, \<open>name\<close>\<close>
  | NTemplate string "string option"    \<comment> \<open>\<open>Template\<close>: \<open>name\<close>, \<open>inherit\<close>\<close>
  | NDefine                             \<comment> \<open>\<open>Define\<close>: children are \<open>[name, value]\<close>\<close>
  | NAssign                             \<comment> \<open>\<open>Assign\<close>: children are \<open>[name, value]\<close>\<close>
  | NUnaryOp string                     \<comment> \<open>\<open>UnaryOp\<close>: \<open>op\<close>\<close>
  | NBinOp string                       \<comment> \<open>\<open>BinOp\<close>: \<open>op\<close>\<close>
  | NNumber 'n "string option"          \<comment> \<open>\<open>Number\<close>: \<open>value\<close>, \<open>unit\<close>\<close>
  | NString string                      \<comment> \<open>\<open>String\<close>: \<open>string\<close>\<close>
  | NCall string                        \<comment> \<open>\<open>Call\<close>: \<open>name\<close>\<close>
  | NName string                        \<comment> \<open>\<open>Name\<close>: \<open>name\<close>\<close>

datatype 'n node = Node (kind: "'n kind") (token: "span option") (children: "'n node list")

section \<open>Values and elements\<close>

text \<open>
  A function object of the function registry, known by its identity only.
\<close>

datatype pyfunc = PyFunc string

text \<open>
  What a visitor of the builder can return: one of the \<open>Value\<close> classes of the
  datatypes module, the property object returned by \<open>Element.get\<close>, an element (by
  identity, its address in the store), or \<open>None\<close>. The constructors of the Value
  classes store their arguments unchanged.
\<close>

datatype 'n val =
    Number 'n
  | Percentage 'n
  | Time 'n string                       \<comment> \<open>the \<open>TimeUnit\<close> member is known by its value\<close>
  | String string
  | BinOp string "'n val" "'n val"
  | UnaryOp string "'n val"
  | Call pyfunc "'n val list"
  | ElementProperty nat string           \<comment> \<open>the property \<open>name\<close> of the element at an address\<close>
  | ElementObj nat
  | NoneVal

fun isinstance_Value :: "'n val \<Rightarrow> bool" where
  "isinstance_Value (ElementObj _) = False"
| "isinstance_Value NoneVal = False"
| "isinstance_Value _ = True"

text \<open>
  The exceptions of the element module and of a dictionary lookup.
\<close>

datatype raised =
    KeyError string
  | ElementPropertyDefinedError string
  | TypeError string
  | CircularReferenceError "string list list"

text \<open>
  An element: its kind name, its ordered children (addresses) and its property table, an
  insertion-ordered dictionary from property name to the bound expression.
\<close>

record 'v element =
  type_name :: string
  children :: "nat list"
  properties :: "(string \<times> 'v) list"

text \<open>
  Modelled from the spec: the class \<open>Element\<close> of the element module is not part of the
  sources. \<open>Element()\<close> is an element with no children and an empty property table;
  \<open>add\<close> attaches a child as the last child; \<open>define\<close> adds an entry to the property
  table and fails when the name is already there; \<open>set\<close> replaces the binding of an
  existing entry and fails with \<open>KeyError\<close> when there is none; \<open>get\<close> returns the
  reference to the property and fails with \<open>KeyError\<close> when there is none. The spec gives
  no build-time condition for the \<open>TypeError\<close> and \<open>CircularReferenceError\<close> that the
  builder also handles around \<open>set\<close>, so the model of \<open>set\<close> raises neither.
\<close>

definition Element :: "'v element" where
  "Element = \<lparr>type_name = ''Element'', children = [], properties = []\<rparr>"

definition add :: "nat \<Rightarrow> 'v element \<Rightarrow> 'v element" where
  "add child e = e\<lparr>children := children e @ [child]\<rparr>"

definition define_property :: "string \<Rightarrow> 'v \<Rightarrow> 'v element \<Rightarrow> raised + 'v element" where
  "define_property name v e =
     (case map_of (properties e) name of
        Some _ \<Rightarrow> Inl (ElementPropertyDefinedError name)
      | None \<Rightarrow> Inr (e\<lparr>properties := properties e @ [(name, v)]\<rparr>))"

definition set_property :: "string \<Rightarrow> 'v \<Rightarrow> 'v element \<Rightarrow> raised + 'v element" where
  "set_property name v e =
     (case map_of (properties e) name of
        None \<Rightarrow> Inl (KeyError name)
      | Some _ \<Rightarrow> Inr (e\<lparr>properties := AList.update name v (properties e)\<rparr>))"

definition get_property :: "nat \<Rightarrow> string \<Rightarrow> 'n val element \<Rightarrow> raised + 'n val" where
  "get_property addr name e =
     (case map_of (properties e) name of
        None \<Rightarrow> Inl (KeyError name)
      | Some _ \<Rightarrow> Inr (ElementProperty addr name))"

text \<open>
  Modelled from the spec: the templates module is not part of the sources. A built-in
  template has a name (\<open>__name__\<close>) and declares properties with default expressions;
  \<open>apply\<close> copies them into the element and gives the element the template's kind name.
\<close>

record 'n template =
  tname :: string
  tproperties :: "(string \<times> 'n val) list"

definition apply_template :: "'n template \<Rightarrow> 'n val element \<Rightarrow> 'n val element" where
  "apply_template t e =
     e\<lparr>type_name := tname t,
       properties := foldl (\<lambda>ps (k, v). AList.update k v ps) (properties e) (tproperties t)\<rparr>"

section \<open>The scene builder\<close>

text \<open>
  The text of a \<open>SceneBuilderError\<close> or an \<open>InterpreterError\<close>, by the format string
  that produces it.
\<close>

datatype message =
    CreatingUndefinedTemplate string      \<comment> \<open>\<open>Creating undefined {template_name!r} template\<close>\<close>
  | InElement raised string               \<comment> \<open>\<open>{ex} in {type_name}\<close>\<close>
  | AssigningUndefinedProperty string string
      \<comment> \<open>\<open>Assigning value to undefined property {name!r} in {type_name}\<close>\<close>
  | UnexpectedUnit string                 \<comment> \<open>\<open>Unexpected unit {unit!r}, expected any of {_units}\<close>\<close>
  | UndefinedProperty string              \<comment> \<open>\<open>Undefined property {_name!r}\<close>\<close>
  | Redeclaration string                  \<comment> \<open>\<open>Redeclaration of {template.name!r}\<close> (interpreter)\<close>

text \<open>
  What a build can raise: the builder's own error (message, the token's span when there
  is a token, and the text after it), the interpreter's own error, and the exceptions of
  Python that neither catches. \<open>ElementsError\<close> is whatever a method of the interpreter's
  elements module raises.
\<close>

datatype error =
    SceneBuilderError message "span option" "string list list option"
  | InterpreterError message "span option"
  | NotImplementedError
  | AssertionError
  | IndexError
  | AttributeError
  | ValueError
  | Uncaught raised
  | ElementsError string

text \<open>
  The parameters of a build that the sources do not fix: \<open>Template.list_templates()\<close>,
  the function registry \<open>functions\<close> (a dictionary, here \<open>functions_dict\<close>) and the values
  of the members of \<open>TimeUnit\<close>.
\<close>

record 'n env =
  list_templates :: "'n template list"
  functions_dict :: "(string \<times> pyfunc) list"
  time_units :: "string list"

text \<open>
  The builder object (\<open>templates\<close>, \<open>_elements\<close>) and the store of the elements, which
  are mutable objects: an element is its address in \<open>heap\<close>. The top of the scope stack is
  the last entry of \<open>elements\<close>, as \<open>append\<close> and \<open>pop\<close> have it. A raised exception
  leaves the state as it is at that moment.
\<close>

record 'n state =
  templates :: "(string \<times> 'n template) list"
  elements :: "nat list"
  heap :: "'n val element list"

type_synonym ('n, 'a) result = "(error + 'a) \<times> 'n state"

definition create_error :: "message \<Rightarrow> string list list option \<Rightarrow> span option \<Rightarrow> error" where
  "create_error m after tok = SceneBuilderError m tok after"

definition new_Element :: "'n state \<Rightarrow> nat \<times> 'n state" where
  "new_Element s = (length (heap s), s\<lparr>heap := heap s @ [Element]\<rparr>)"

definition update_element :: "nat \<Rightarrow> ('n val element \<Rightarrow> 'n val element) \<Rightarrow> 'n state \<Rightarrow> 'n state" where
  "update_element a f s = s\<lparr>heap := (heap s)[a := f (heap s ! a)]\<rparr>"

text \<open>\<open>self._element\<close>: the last entry of the stack, \<open>IndexError\<close> on the empty stack.\<close>

definition current_element :: "'n state \<Rightarrow> error + nat" where
  "current_element s = (if elements s = [] then Inl IndexError else Inr (last (elements s)))"

definition push_element :: "nat \<Rightarrow> 'n state \<Rightarrow> 'n state" where
  "push_element a s = s\<lparr>elements := elements s @ [a]\<rparr>"

text \<open>
  The exit of \<open>_push_element\<close>, reached only when the body raised nothing:
  \<open>assert self._elements.pop() is element\<close>.
\<close>

definition pop_element :: "nat \<Rightarrow> 'n state \<Rightarrow> ('n, unit) result" where
  "pop_element a s =
     (if elements s = [] then (Inl IndexError, s)
      else if last (elements s) = a then (Inr (), s\<lparr>elements := butlast (elements s)\<rparr>)
      else (Inl AssertionError, s\<lparr>elements := butlast (elements s)\<rparr>))"

text \<open>Python's truth value of \<open>create.name\<close>: \<open>None\<close> and the empty string are false.\<close>

definition truthy :: "string option \<Rightarrow> bool" where
  "truthy n = (case n of None \<Rightarrow> False | Some x \<Rightarrow> x \<noteq> [])"

definition build_Number :: "'n env \<Rightarrow> 'n \<Rightarrow> string option \<Rightarrow> span option \<Rightarrow> 'n node list \<Rightarrow>
    'n state \<Rightarrow> ('n, 'n val) result" where
  "build_Number env v unit tok cs s =
     (if length cs \<noteq> 0 then (Inl AssertionError, s)
      else case unit of
        None \<Rightarrow> (Inr (Number v), s)
      | Some u \<Rightarrow>
          if u = ''%'' then (Inr (Percentage v), s)
          else if u \<in> set (time_units env) then (Inr (Time v u), s)
          else (Inl (create_error (UnexpectedUnit u) None tok), s))"

definition build_String :: "string \<Rightarrow> 'n node list \<Rightarrow> 'n state \<Rightarrow> ('n, 'n val) result" where
  "build_String str cs s =
     (if length cs \<noteq> 0 then (Inl AssertionError, s) else (Inr (String str), s))"

text \<open>
  The loop of \<open>_build_Name\<close> over \<open>reversed(self._elements)\<close>; the argument is the stack
  already reversed. A \<open>KeyError\<close> of \<open>get\<close> is suppressed and the loop goes on.
\<close>

fun scan_elements :: "string \<Rightarrow> nat list \<Rightarrow> 'n val element list \<Rightarrow> 'n val option" where
  "scan_elements name [] h = None"
| "scan_elements name (a # as) h =
     (case get_property a name (h ! a) of
        Inr v \<Rightarrow> Some v
      | Inl _ \<Rightarrow> scan_elements name as h)"

definition build_Name :: "string \<Rightarrow> span option \<Rightarrow> 'n node list \<Rightarrow> 'n state \<Rightarrow> ('n, 'n val) result" where
  "build_Name name tok cs s =
     (if length cs \<noteq> 0 then (Inl AssertionError, s)
      else case scan_elements name (rev (elements s)) (heap s) of
        Some v \<Rightarrow> (Inr v, s)
      | None \<Rightarrow> (Inl (create_error (UndefinedProperty name) None tok), s))"

text \<open>The end of \<open>_build_Define\<close>, after the value expression is built.\<close>

definition finish_Define :: "string \<Rightarrow> 'n val \<Rightarrow> span option \<Rightarrow> 'n state \<Rightarrow> ('n, 'n val) result" where
  "finish_Define name v tok s =
     (if \<not> isinstance_Value v then (Inl AssertionError, s)
      else case current_element s of
        Inl e \<Rightarrow> (Inl e, s)
      | Inr a \<Rightarrow>
          (case define_property name v (heap s ! a) of
             Inl ex \<Rightarrow> (Inl (create_error (InElement ex (type_name (heap s ! a))) None tok), s)
           | Inr e' \<Rightarrow> (Inr NoneVal, update_element a (\<lambda>_. e') s)))"

text \<open>The end of \<open>_build_Assign\<close>, after the value expression is built.\<close>

definition finish_Assign :: "string \<Rightarrow> 'n val \<Rightarrow> span option \<Rightarrow> 'n state \<Rightarrow> ('n, 'n val) result" where
  "finish_Assign name v tok s =
     (if \<not> isinstance_Value v then (Inl AssertionError, s)
      else case current_element s of
        Inl e \<Rightarrow> (Inl e, s)
      | Inr a \<Rightarrow>
          (case set_property name v (heap s ! a) of
             Inl (KeyError _) \<Rightarrow>
               (Inl (create_error (AssigningUndefinedProperty name (type_name (heap s ! a))) None tok), s)
           | Inl (TypeError m) \<Rightarrow>
               (Inl (create_error (InElement (TypeError m) (type_name (heap s ! a))) None tok), s)
           | Inl (CircularReferenceError paths) \<Rightarrow>
               (Inl (create_error (InElement (CircularReferenceError paths) (type_name (heap s ! a)))
                  (Some paths) tok), s)
           | Inl (ElementPropertyDefinedError m) \<Rightarrow> (Inl (Uncaught (ElementPropertyDefinedError m)), s)
           | Inr e' \<Rightarrow> (Inr NoneVal, update_element a (\<lambda>_. e') s)))"

text \<open>
  The start of \<open>_build_Create\<close>, up to the entry of \<open>_push_element\<close>: the template is
  looked up, the element is made, a named instance is refused, the element is added to
  the element on top of the stack when there is one, the template is applied and the
  element is pushed.
\<close>

definition enter_Create :: "string \<Rightarrow> string option \<Rightarrow> span option \<Rightarrow> 'n state \<Rightarrow> ('n, nat) result" where
  "enter_Create template_name name tok s =
     (case map_of (templates s) template_name of
        None \<Rightarrow> (Inl (create_error (CreatingUndefinedTemplate template_name) None tok), s)
      | Some template \<Rightarrow>
          (case new_Element s of (element, s1) \<Rightarrow>
             if truthy name then (Inl NotImplementedError, s1)
             else
               let s2 = (case current_element s1 of
                           Inl _ \<Rightarrow> s1
                         | Inr parent \<Rightarrow> update_element parent (add element) s1);
                   s3 = update_element element (apply_template template) s2
               in (Inr element, push_element element s3)))"

fun build :: "'n env \<Rightarrow> 'n node \<Rightarrow> 'n state \<Rightarrow> ('n, 'n val) result"
  and build_children :: "'n env \<Rightarrow> 'n node list \<Rightarrow> 'n state \<Rightarrow> ('n, 'n val list) result"
where
  "build env (Node k tok cs) s =
     (case k of
        NCreate template_name name \<Rightarrow>
          (case enter_Create template_name name tok s of
             (Inl e, s1) \<Rightarrow> (Inl e, s1)
           | (Inr element, s1) \<Rightarrow>
               (case build_children env cs s1 of
                  (Inl e, s2) \<Rightarrow> (Inl e, s2)
                | (Inr _, s2) \<Rightarrow>
                    (case pop_element element s2 of
                       (Inl e, s3) \<Rightarrow> (Inl e, s3)
                     | (Inr _, s3) \<Rightarrow> (Inr (ElementObj element), s3))))
      | NTemplate _ _ \<Rightarrow> (Inl NotImplementedError, s)
      | NDefine \<Rightarrow>
          (case cs of
             [n, v] \<Rightarrow>
               (case kind n of
                  NName name \<Rightarrow>
                    (case build env v s of
                       (Inl e, s1) \<Rightarrow> (Inl e, s1)
                     | (Inr val, s1) \<Rightarrow> finish_Define name val tok s1)
                | _ \<Rightarrow> (Inl AssertionError, s))
           | _ \<Rightarrow> (Inl AssertionError, s))
      | NAssign \<Rightarrow>
          (case cs of
             [n, v] \<Rightarrow>
               (case kind n of
                  NName name \<Rightarrow>
                    (case build env v s of
                       (Inl e, s1) \<Rightarrow> (Inl e, s1)
                     | (Inr val, s1) \<Rightarrow> finish_Assign name val tok s1)
                | _ \<Rightarrow> (Inl AssertionError, s))
           | _ \<Rightarrow> (Inl AssertionError, s))
      | NUnaryOp op \<Rightarrow>
          (if length cs \<noteq> 1 then (Inl AssertionError, s)
           else case build_children env cs s of
             (Inl e, s1) \<Rightarrow> (Inl e, s1)
           | (Inr [operand], s1) \<Rightarrow> (Inr (UnaryOp op operand), s1)
           | (Inr _, s1) \<Rightarrow> (Inl ValueError, s1))
      | NBinOp op \<Rightarrow>
          (if length cs \<noteq> 2 then (Inl AssertionError, s)
           else case build_children env cs s of
             (Inl e, s1) \<Rightarrow> (Inl e, s1)
           | (Inr [lhs, rhs], s1) \<Rightarrow> (Inr (BinOp op lhs rhs), s1)
           | (Inr _, s1) \<Rightarrow> (Inl ValueError, s1))
      | NNumber v unit \<Rightarrow> build_Number env v unit tok cs s
      | NString str \<Rightarrow> build_String str cs s
      | NCall name \<Rightarrow>
          (case build_children env cs s of
             (Inl e, s1) \<Rightarrow> (Inl e, s1)
           | (Inr args, s1) \<Rightarrow>
               (case map_of (functions_dict env) name of
                  None \<Rightarrow> (Inl (Uncaught (KeyError name)), s1)
                | Some f \<Rightarrow> (Inr (Call f args), s1)))
      | NName name \<Rightarrow> build_Name name tok cs s)"
| "build_children env [] s = (Inr [], s)"
| "build_children env (c # cs) s =
     (case build env c s of
        (Inl e, s1) \<Rightarrow> (Inl e, s1)
      | (Inr v, s1) \<Rightarrow>
          (case build_children env cs s1 of
             (Inl e, s2) \<Rightarrow> (Inl e, s2)
           | (Inr vs, s2) \<Rightarrow> (Inr (v # vs), s2)))"

text \<open>
  \<open>SceneBuilder.build\<close> on a syntax tree (on a string it parses the string first and
  calls itself on the tree). The builder's \<open>templates\<close> and \<open>_elements\<close> are set anew
  before the tree is visited.
\<close>

definition templates_dict :: "'n template list \<Rightarrow> (string \<times> 'n template) list" where
  "templates_dict ts = foldl (\<lambda>d t. AList.update (tname t) t d) [] ts"

definition SceneBuilder_build :: "'n env \<Rightarrow> 'n node \<Rightarrow> 'n state \<Rightarrow> ('n, 'n val) result" where
  "SceneBuilder_build env string s =
     (case kind string of
        NCreate element _ \<Rightarrow>
          if element \<noteq> ''Scene'' then (Inl AssertionError, s)
          else
            (case build env string (s\<lparr>templates := templates_dict (list_templates env), elements := []\<rparr>) of
               (Inl e, s1) \<Rightarrow> (Inl e, s1)
             | (Inr scene, s1) \<Rightarrow>
                 (case scene of
                    ElementObj a \<Rightarrow>
                      if type_name (heap s1 ! a) \<noteq> ''Scene'' then (Inl AssertionError, s1)
                      else (Inr scene, s1)
                  | _ \<Rightarrow> (Inl AssertionError, s1)))
      | _ \<Rightarrow> (Inl AssertionError, s))"


section \<open>The interpreter\<close>

text \<open>
  The second pipeline, \<open>Interpreter\<close>. Its elements module is not part of the sources, so
  the store of its objects is a type parameter \<open>'h\<close> and the operations of the module the
  interpreter calls are parameters: the table \<open>internal_templates\<close> (the \<open>Element\<close>
  subclasses of the module by name, and \<open>Rect\<close>), \<open>Element()\<close>, the instantiation of a
  class, \<open>template.apply(element)\<close>, \<open>element.add(child)\<close>, \<open>element.set(name, value)\<close>,
  the assignment to \<open>element.name\<close>, \<open>isinstance(element, Scene)\<close> and the reading of
  \<open>element.name\<close>. An object is its address; a method can raise.
\<close>

datatype template_ref =
    TClass string      \<comment> \<open>a class of the elements module\<close>
  | TElement nat       \<comment> \<open>a prototype element made by a \<open>Template\<close> declaration\<close>

text \<open>What a visitor of the interpreter can return.\<close>

datatype 'n ival =
    IElement nat
  | INone
  | IStr string
  | INode "'n node"

record ('n, 'h) elements_module =
  internal_templates :: "(string \<times> template_ref) list"
  new_element :: "'h \<Rightarrow> nat \<times> 'h"
  instantiate :: "string \<Rightarrow> 'h \<Rightarrow> (error + nat) \<times> 'h"
  apply_to :: "nat \<Rightarrow> nat \<Rightarrow> 'h \<Rightarrow> (error + nat) \<times> 'h"
  add_child :: "nat \<Rightarrow> nat \<Rightarrow> 'h \<Rightarrow> (error + unit) \<times> 'h"
  set_attr :: "nat \<Rightarrow> 'n ival \<Rightarrow> 'n ival \<Rightarrow> 'h \<Rightarrow> (error + unit) \<times> 'h"
  set_name :: "nat \<Rightarrow> string \<Rightarrow> 'h \<Rightarrow> 'h"
  isinstance_Scene :: "nat \<Rightarrow> 'h \<Rightarrow> bool"
  name_of :: "nat \<Rightarrow> 'h \<Rightarrow> string"

record 'h istate =
  itemplates :: "(string \<times> template_ref) list"
  ielements :: "nat list"
  store :: "'h"

type_synonym ('h, 'a) iresult = "(error + 'a) \<times> 'h istate"

definition get_template :: "string \<Rightarrow> span option \<Rightarrow> 'h istate \<Rightarrow> error + template_ref" where
  "get_template name tok s =
     (case map_of (itemplates s) name of
        None \<Rightarrow> Inl (InterpreterError (CreatingUndefinedTemplate name) tok)
      | Some t \<Rightarrow> Inr t)"

text \<open>
  \<open>_apply_template\<close>: a class is instantiated first. Both assertions hold for every entry
  of the registry, which holds classes of \<open>internal_templates\<close> and elements only.
\<close>

definition apply_template_to :: "('n, 'h) elements_module \<Rightarrow> template_ref \<Rightarrow> nat \<Rightarrow> 'h istate \<Rightarrow>
    ('h, nat) iresult" where
  "apply_template_to em template element s =
     (case template of
        TClass c \<Rightarrow>
          (case instantiate em c (store s) of
             (Inl e, h) \<Rightarrow> (Inl e, s\<lparr>store := h\<rparr>)
           | (Inr t, h) \<Rightarrow>
               (case apply_to em t element h of (r, h') \<Rightarrow> (r, s\<lparr>store := h'\<rparr>)))
      | TElement t \<Rightarrow>
          (case apply_to em t element (store s) of (r, h') \<Rightarrow> (r, s\<lparr>store := h'\<rparr>)))"

definition instantiate_template :: "('n, 'h) elements_module \<Rightarrow> template_ref \<Rightarrow> 'h istate \<Rightarrow>
    ('h, nat) iresult" where
  "instantiate_template em template s =
     (case new_element em (store s) of
        (element, h) \<Rightarrow> apply_template_to em template element (s\<lparr>store := h\<rparr>))"

definition ipush_element :: "nat \<Rightarrow> 'h istate \<Rightarrow> 'h istate" where
  "ipush_element a s = s\<lparr>ielements := ielements s @ [a]\<rparr>"

definition ipop_element :: "nat \<Rightarrow> 'h istate \<Rightarrow> ('h, unit) iresult" where
  "ipop_element a s =
     (if ielements s = [] then (Inl IndexError, s)
      else if last (ielements s) = a then (Inr (), s\<lparr>ielements := butlast (ielements s)\<rparr>)
      else (Inl AssertionError, s\<lparr>ielements := butlast (ielements s)\<rparr>))"

text \<open>What the loop over the children does with one child's result.\<close>

definition add_result :: "('n, 'h) elements_module \<Rightarrow> nat \<Rightarrow> 'n ival \<Rightarrow> 'h istate \<Rightarrow> ('h, unit) iresult" where
  "add_result em element child s =
     (case child of
        INone \<Rightarrow> (Inr (), s)
      | IElement c \<Rightarrow> (case add_child em element c (store s) of (r, h) \<Rightarrow> (r, s\<lparr>store := h\<rparr>))
      | _ \<Rightarrow> (Inl AssertionError, s))"

text \<open>
  The start of \<open>_interpret_Create\<close>, up to the entry of \<open>_push_element\<close>.
\<close>

definition ienter_Create :: "('n, 'h) elements_module \<Rightarrow> string \<Rightarrow> string option \<Rightarrow> span option \<Rightarrow>
    'h istate \<Rightarrow> ('h, nat) iresult" where
  "ienter_Create em template_name name tok s =
     (case get_template template_name tok s of
        Inl e \<Rightarrow> (Inl e, s)
      | Inr template \<Rightarrow>
          (case instantiate_template em template s of
             (Inl e, s1) \<Rightarrow> (Inl e, s1)
           | (Inr element, s1) \<Rightarrow>
               if truthy name then (Inl NotImplementedError, s1)
               else (Inr element, ipush_element element s1)))"

text \<open>
  The start of \<open>_interpret_Template\<close>, up to the entry of \<open>_push_element\<close>: the prototype is
  made and named, a name already in the registry is refused, the base template is
  applied.
\<close>

definition ienter_Template :: "('n, 'h) elements_module \<Rightarrow> string \<Rightarrow> string option \<Rightarrow> span option \<Rightarrow>
    'h istate \<Rightarrow> ('h, nat) iresult" where
  "ienter_Template em name inherit tok s =
     (case new_element em (store s) of
        (element_template, h) \<Rightarrow>
          let s1 = s\<lparr>store := set_name em element_template name h\<rparr> in
          if map_of (itemplates s1) name \<noteq> None
          then (Inl (InterpreterError (Redeclaration name) tok), s1)
          else
            (case inherit of
               None \<Rightarrow> (Inr element_template, ipush_element element_template s1)
             | Some base \<Rightarrow>
                 (case get_template base tok s1 of
                    Inl e \<Rightarrow> (Inl e, s1)
                  | Inr t \<Rightarrow>
                      (case apply_template_to em t element_template s1 of
                         (Inl e, s2) \<Rightarrow> (Inl e, s2)
                       | (Inr _, s2) \<Rightarrow> (Inr element_template, ipush_element element_template s2)))))"

definition register_template :: "string \<Rightarrow> nat \<Rightarrow> 'h istate \<Rightarrow> 'h istate" where
  "register_template name a s = s\<lparr>itemplates := AList.update name (TElement a) (itemplates s)\<rparr>"

definition icurrent_element :: "'h istate \<Rightarrow> error + nat" where
  "icurrent_element s = (if ielements s = [] then Inl IndexError else Inr (last (ielements s)))"

definition finish_iAssign :: "('n, 'h) elements_module \<Rightarrow> 'n ival \<Rightarrow> 'n ival \<Rightarrow> 'h istate \<Rightarrow>
    ('h, 'n ival) iresult" where
  "finish_iAssign em name v s =
     (case icurrent_element s of
        Inl e \<Rightarrow> (Inl e, s)
      | Inr a \<Rightarrow>
          (case set_attr em a name v (store s) of
             (Inl e, h) \<Rightarrow> (Inl e, s\<lparr>store := h\<rparr>)
           | (Inr _, h) \<Rightarrow> (Inr INone, s\<lparr>store := h\<rparr>)))"

text \<open>
  \<open>interpret_into\<close> is the loop \<open>for child in self._interpret_children(node)\<close> of
  \<open>_interpret_Create\<close> and \<open>_interpret_Template\<close>, which adds each child element as soon as
  it is interpreted; \<open>interpret_children em n\<close> is the generator asked for at most \<open>n\<close>
  values. The unpacking \<open>name, value = self._interpret_children(assign)\<close> asks the
  generator for a third value before it fails on more than two. \<open>Define\<close> and \<open>Call\<close> nodes have no visitor. \<open>interpret_node\<close> is \<open>_interpret\<close>.
\<close>

fun interpret_node :: "('n, 'h) elements_module \<Rightarrow> 'n node \<Rightarrow> 'h istate \<Rightarrow> ('h, 'n ival) iresult"
  and interpret_into :: "('n, 'h) elements_module \<Rightarrow> nat \<Rightarrow> 'n node list \<Rightarrow> 'h istate \<Rightarrow> ('h, unit) iresult"
  and interpret_children :: "('n, 'h) elements_module \<Rightarrow> nat \<Rightarrow> 'n node list \<Rightarrow> 'h istate \<Rightarrow>
        ('h, 'n ival list) iresult"
where
  "interpret_node em (Node k tok cs) s =
     (case k of
        NCreate template_name name \<Rightarrow>
          (case ienter_Create em template_name name tok s of
             (Inl e, s1) \<Rightarrow> (Inl e, s1)
           | (Inr element, s1) \<Rightarrow>
               (case interpret_into em element cs s1 of
                  (Inl e, s2) \<Rightarrow> (Inl e, s2)
                | (Inr _, s2) \<Rightarrow>
                    (case ipop_element element s2 of
                       (Inl e, s3) \<Rightarrow> (Inl e, s3)
                     | (Inr _, s3) \<Rightarrow> (Inr (IElement element), s3))))
      | NTemplate name inherit \<Rightarrow>
          (case ienter_Template em name inherit tok s of
             (Inl e, s1) \<Rightarrow> (Inl e, s1)
           | (Inr element_template, s1) \<Rightarrow>
               (case interpret_into em element_template cs s1 of
                  (Inl e, s2) \<Rightarrow> (Inl e, s2)
                | (Inr _, s2) \<Rightarrow>
                    (case ipop_element element_template s2 of
                       (Inl e, s3) \<Rightarrow> (Inl e, s3)
                     | (Inr _, s3) \<Rightarrow> (Inr INone, register_template name element_template s3))))
      | NDefine \<Rightarrow> (Inl AttributeError, s)
      | NAssign \<Rightarrow>
          (case interpret_children em 3 cs s of
             (Inl e, s1) \<Rightarrow> (Inl e, s1)
           | (Inr vs, s1) \<Rightarrow>
               (case vs of
                  [name, v] \<Rightarrow> finish_iAssign em name v s1
                | _ \<Rightarrow> (Inl ValueError, s1)))
      | NUnaryOp _ \<Rightarrow> (Inl NotImplementedError, s)
      | NBinOp _ \<Rightarrow> (Inl NotImplementedError, s)
      | NNumber _ _ \<Rightarrow>
          (if length cs \<noteq> 0 then (Inl AssertionError, s) else (Inr (INode (Node k tok cs)), s))
      | NString str \<Rightarrow>
          (if length cs \<noteq> 0 then (Inl AssertionError, s) else (Inr (IStr str), s))
      | NCall _ \<Rightarrow> (Inl AttributeError, s)
      | NName name \<Rightarrow>
          (if length cs \<noteq> 0 then (Inl AssertionError, s) else (Inr (IStr name), s)))"
| "interpret_into em element [] s = (Inr (), s)"
| "interpret_into em element (c # cs) s =
     (case interpret_node em c s of
        (Inl e, s1) \<Rightarrow> (Inl e, s1)
      | (Inr child, s1) \<Rightarrow>
          (case add_result em element child s1 of
             (Inl e, s2) \<Rightarrow> (Inl e, s2)
           | (Inr _, s2) \<Rightarrow> interpret_into em element cs s2))"
| "interpret_children em 0 cs s = (Inr [], s)"
| "interpret_children em (Suc n) [] s = (Inr [], s)"
| "interpret_children em (Suc n) (c # cs) s =
     (case interpret_node em c s of
        (Inl e, s1) \<Rightarrow> (Inl e, s1)
      | (Inr v, s1) \<Rightarrow>
          (case interpret_children em n cs s1 of
             (Inl e, s2) \<Rightarrow> (Inl e, s2)
           | (Inr vs, s2) \<Rightarrow> (Inr (v # vs), s2)))"

text \<open>
  \<open>Interpreter.interpret\<close> on a syntax tree. The registry is a new copy of
  \<open>internal_templates\<close> and the stack is empty before the tree is visited.
\<close>

definition Interpreter_interpret :: "('n, 'h) elements_module \<Rightarrow> 'n node \<Rightarrow> 'h istate \<Rightarrow>
    ('h, 'n ival) iresult" where
  "Interpreter_interpret em string s =
     (case kind string of
        NCreate element _ \<Rightarrow>
          if element \<noteq> ''Scene'' then (Inl AssertionError, s)
          else
            (case interpret_node em string (s\<lparr>itemplates := internal_templates em, ielements := []\<rparr>) of
               (Inl e, s1) \<Rightarrow> (Inl e, s1)
             | (Inr scene, s1) \<Rightarrow>
                 (case scene of
                    IElement a \<Rightarrow>
                      if isinstance_Scene em a (store s1) \<or> name_of em a (store s1) = ''Scene''
                      then (Inr scene, s1)
                      else (Inl AssertionError, s1)
                  | _ \<Rightarrow> (Inl AssertionError, s1)))
      | _ \<Rightarrow> (Inl AssertionError, s))"

section \<open>Relations between the states of a build\<close>

text \<open>
  \<open>ext s s'\<close>: from \<open>s\<close> to \<open>s'\<close> the store has only grown, the registry is the same and
  every element that exists in \<open>s\<close> has kept its children, in order, and possibly got more.
\<close>

definition ext :: "'n state \<Rightarrow> 'n state \<Rightarrow> bool" where
  "ext s s' \<longleftrightarrow>
     length (heap s) \<le> length (heap s') \<and> templates s' = templates s \<and>
     (\<forall>a < length (heap s). prefix (children (heap s ! a)) (children (heap s' ! a)))"

text \<open>
  The scope stack after a visit: restored when the visit returned, extended by the
  elements that were not popped when it raised.
\<close>

definition stack_after :: "'n state \<Rightarrow> error + 'a \<Rightarrow> 'n state \<Rightarrow> bool" where
  "stack_after s r s' \<longleftrightarrow>
     (case r of Inr _ \<Rightarrow> elements s' = elements s | Inl _ \<Rightarrow> prefix (elements s) (elements s'))"

definition post :: "'n state \<Rightarrow> error + 'a \<Rightarrow> 'n state \<Rightarrow> bool" where
  "post s r s' \<longleftrightarrow> ext s s' \<and> stack_after s r s'"

section \<open>Relocation of addresses\<close>

text \<open>
  An element made by a build gets the next free address of the store, so the same build
  run in a store that already holds \<open>k\<close> elements makes the same elements \<open>k\<close> addresses
  further on. \<open>shift_val k\<close> and \<open>shift_element k\<close> move the addresses in a value and in an
  element by \<open>k\<close>; a value is closed when it holds no address. \<open>sim h0 s b\<close>: the state
  \<open>b\<close> is the state \<open>s\<close> moved behind the elements \<open>h0\<close>, the stack of \<open>s\<close> holds addresses of
  its store only and the templates of its registry declare closed defaults.
\<close>

fun shift_val :: "nat \<Rightarrow> 'n val \<Rightarrow> 'n val" where
  "shift_val k (ElementProperty a name) = ElementProperty (a + k) name"
| "shift_val k (ElementObj a) = ElementObj (a + k)"
| "shift_val k (BinOp op l r) = BinOp op (shift_val k l) (shift_val k r)"
| "shift_val k (UnaryOp op x) = UnaryOp op (shift_val k x)"
| "shift_val k (Call f args) = Call f (map (shift_val k) args)"
| "shift_val k v = v"

fun closed_val :: "'n val \<Rightarrow> bool" where
  "closed_val (ElementProperty a name) = False"
| "closed_val (ElementObj a) = False"
| "closed_val (BinOp op l r) = (closed_val l \<and> closed_val r)"
| "closed_val (UnaryOp op x) = closed_val x"
| "closed_val (Call f args) = list_all closed_val args"
| "closed_val v = True"

definition shift_element :: "nat \<Rightarrow> 'n val element \<Rightarrow> 'n val element" where
  "shift_element k e =
     e\<lparr>children := map (\<lambda>a. a + k) (children e),
       properties := map (apsnd (shift_val k)) (properties e)\<rparr>"

definition closed_template :: "'n template \<Rightarrow> bool" where
  "closed_template t = list_all (\<lambda>p. closed_val (snd p)) (tproperties t)"

definition sim :: "'n val element list \<Rightarrow> 'n state \<Rightarrow> 'n state \<Rightarrow> bool" where
  "sim h0 s b \<longleftrightarrow>
     heap b = h0 @ map (shift_element (length h0)) (heap s) \<and>
     elements b = map (\<lambda>a. a + length h0) (elements s) \<and>
     templates b = templates s \<and>
     list_all (\<lambda>a. a < length (heap s)) (elements s) \<and>
     list_all (\<lambda>p. closed_template (snd p)) (templates s)"

section \<open>Example inputs\<close>

text \<open>
  A registry of two built-in templates, a state in which the scene element is on the
  stack, and some syntax trees.
\<close>

definition ex_env :: "int env" where
  "ex_env = \<lparr>list_templates = [\<lparr>tname = ''Scene'', tproperties = [(''width'', Number 100)]\<rparr>,
            \<lparr>tname = ''Rectangle'', tproperties = [(''width'', Percentage 100)]\<rparr>],
           functions_dict = [(''min'', PyFunc ''min'')], time_units = [''s'', ''ms'']\<rparr>"

definition ex_state :: "int state" where
  "ex_state = \<lparr>templates = templates_dict (list_templates ex_env), elements = [0],
     heap = [\<lparr>type_name = ''Scene'', children = [], properties = [(''width'', Number 100)]\<rparr>]\<rparr>"

definition ex_rect :: "int node" where
  "ex_rect = Node (NCreate ''Rectangle'' None) None
     [Node NAssign None [Node (NName ''width'') None [], Node (NNumber 50 (Some ''%'')) None []]]"

definition ex_bad :: "int node" where
  "ex_bad = Node NDefine None [Node (NName ''y'') None [], Node (NName ''nope'') None []]"
definition ex_state1 :: "int state" where
  "ex_state1 = \<lparr>templates = templates_dict (list_templates ex_env), elements = [0],
     heap = [\<lparr>type_name = ''Scene'', children = [1], properties = [(''width'', Number 100)]\<rparr>,
             \<lparr>type_name = ''Rectangle'', children = [], properties = [(''width'', Percentage 50)]\<rparr>]\<rparr>"

definition ex_state2 :: "int state" where
  "ex_state2 = \<lparr>templates = templates_dict (list_templates ex_env), elements = [0, 2],
     heap = [\<lparr>type_name = ''Scene'', children = [1, 2], properties = [(''width'', Number 100)]\<rparr>,
             \<lparr>type_name = ''Rectangle'', children = [], properties = [(''width'', Percentage 50)]\<rparr>,
             \<lparr>type_name = ''Rectangle'', children = [], properties = [(''width'', Percentage 100)]\<rparr>]\<rparr>"

definition ex_failed :: "int state" where
  "ex_failed = \<lparr>templates = templates_dict (list_templates ex_env), elements = [0],
     heap = [\<lparr>type_name = ''Scene'', children = [1, 2], properties = [(''width'', Number 100)]\<rparr>,
             \<lparr>type_name = ''Rectangle'', children = [], properties = [(''width'', Percentage 50)]\<rparr>,
             \<lparr>type_name = ''Rectangle'', children = [], properties = [(''width'', Percentage 100)]\<rparr>]\<rparr>"

definition ex_fresh :: "int state" where
  "ex_fresh = \<lparr>templates = [], elements = [], heap = []\<rparr>"

definition ex_dirty :: "int state" where
  "ex_dirty = \<lparr>templates = [(''Card'', \<lparr>tname = ''Card'', tproperties = []\<rparr>)], elements = [7, 3], heap = []\<rparr>"

definition ex_after :: "int state" where
  "ex_after = \<lparr>templates = [(''Card'', \<lparr>tname = ''Card'', tproperties = []\<rparr>)], elements = [1],
     heap = [\<lparr>type_name = ''Scene'', children = [1],
               properties = [(''width'', Number 100), (''x'', Number 5)]\<rparr>,
             \<lparr>type_name = ''Rectangle'', children = [],
               properties = [(''width'', BinOp ''+'' (ElementProperty 0 ''x'') (Time 2 ''s''))]\<rparr>]\<rparr>"

definition ex_scene :: "int node" where
  "ex_scene = Node (NCreate ''Scene'' None) None
     [Node NDefine None [Node (NName ''x'') None [], Node (NNumber 5 None) None []],
      Node (NCreate ''Rectangle'' None) None
        [Node NAssign None [Node (NName ''width'') None [],
           Node (NBinOp ''+'') None [Node (NName ''x'') None [], Node (NNumber 2 (Some ''s'')) None []]]]]"

definition ex_built :: "int state" where
  "ex_built = \<lparr>templates = templates_dict (list_templates ex_env), elements = [],
     heap = [\<lparr>type_name = ''Scene'', children = [1],
               properties = [(''width'', Number 100), (''x'', Number 5)]\<rparr>,
             \<lparr>type_name = ''Rectangle'', children = [],
               properties = [(''width'', BinOp ''+'' (ElementProperty 0 ''x'') (Time 2 ''s''))]\<rparr>]\<rparr>"

text \<open>
  An elements module for the interpreter whose store keeps the name of each object.
\<close>

definition ex_elements :: "(int, string list) elements_module" where
  "ex_elements = \<lparr>
     internal_templates = [(''Scene'', TClass ''Scene''), (''Rectangle'', TClass ''Rectangle''),
                           (''Rect'', TClass ''Rectangle'')],
     new_element = (\<lambda>h. (length h, h @ [''Element''])),
     instantiate = (\<lambda>c h. (Inr (length h), h @ [c])),
     apply_to = (\<lambda>t e h. (Inr e, h[e := h ! t])),
     add_child = (\<lambda>p c h. (Inr (), h)),
     set_attr = (\<lambda>a n v h. (Inr (), h)),
     set_name = (\<lambda>a n h. h[a := n]),
     isinstance_Scene = (\<lambda>a h. False),
     name_of = (\<lambda>a h. h ! a)\<rparr>"

definition ex_istate :: "string list istate" where
  "ex_istate = \<lparr>itemplates = internal_templates ex_elements, ielements = [], store = []\<rparr>"

section \<open>Properties of the builder\<close>

lemmas build_defs = templates_dict_def enter_Create_def
     new_Element_def truthy_def current_element_def update_element_def add_def push_element_def pop_element_def
     apply_template_def Element_def finish_Define_def finish_Assign_def define_property_def set_property_def
     build_Name_def build_Number_def build_String_def get_property_def create_error_def

lemmas ex_defs = ex_env_def ex_state_def ex_rect_def ex_bad_def ex_state1_def ex_state2_def ex_failed_def
  ex_fresh_def ex_dirty_def ex_scene_def ex_built_def ex_after_def

lemmas interpret_defs = get_template_def apply_template_to_def instantiate_template_def ipush_element_def
  ipop_element_def add_result_def ienter_Create_def ienter_Template_def register_template_def
  icurrent_element_def finish_iAssign_def truthy_def

lemmas ex_idefs = ex_elements_def ex_istate_def

lemma in_keys: "(k \<in> fst ` set ps) = (map_of ps k \<noteq> None)"
  by (simp add: map_of_eq_None_iff)

lemma scan_elements_find:
  "scan_elements name as h =
     map_option (\<lambda>a. ElementProperty a name) (find (\<lambda>a. name \<in> fst ` set (properties (h ! a))) as)"
  by (induction as) (auto simp: get_property_def in_keys split: option.splits)

lemma ext_refl: "ext s s"
  by (simp add: ext_def)

lemma ext_trans: "ext s s1 \<Longrightarrow> ext s1 s2 \<Longrightarrow> ext s s2"
proof -
  assume a: "ext s s1" and b: "ext s1 s2"
  have "prefix (children (heap s ! a)) (children (heap s2 ! a))" if "a < length (heap s)" for a
  proof -
    from that a have "prefix (children (heap s ! a)) (children (heap s1 ! a))" and "a < length (heap s1)"
      by (auto simp: ext_def)
    with b show ?thesis
      unfolding ext_def using prefix_order.order_trans by blast
  qed
  with a b show ?thesis by (simp add: ext_def)
qed

lemma ext_update:
  assumes "prefix (children (heap s ! a)) (children (f (heap s ! a)))"
  shows "ext s (update_element a f s)"
proof -
  have "prefix (children (heap s ! b)) (children ((heap s)[a := f (heap s ! a)] ! b))"
    if "b < length (heap s)" for b
    using that assms by (cases "a = b") simp_all
  then show ?thesis by (simp add: ext_def update_element_def)
qed

lemma ext_update_add: "ext s (update_element a (add c) s)"
  by (rule ext_update) (simp add: add_def)

lemma ext_new_Element: "new_Element s = (a, s1) \<Longrightarrow> ext s s1"
  by (auto simp: ext_def new_Element_def nth_append)

lemma ext_push: "ext s (push_element a s)"
  by (simp add: ext_def push_element_def)

lemma ext_pop: "pop_element a s = (r, s') \<Longrightarrow> ext s s'"
  by (auto simp: ext_def pop_element_def split: if_splits)

lemma ext_enter_Create:
  assumes "enter_Create tn nm tok s = (r, s')"
  shows "ext s s'"
proof (cases "map_of (templates s) tn")
  case None
  with assms show ?thesis by (simp add: enter_Create_def ext_refl)
next
  case (Some t)
  obtain a s1 where n: "new_Element s = (a, s1)" by (cases "new_Element s")
  then have e1: "ext s s1" by (rule ext_new_Element)
  show ?thesis
  proof (cases "truthy nm")
    case True
    with assms Some n e1 show ?thesis by (simp add: enter_Create_def)
  next
    case False
    define s2 where "s2 = (case current_element s1 of Inl _ \<Rightarrow> s1
                           | Inr parent \<Rightarrow> update_element parent (add a) s1)"
    have e2: "ext s1 s2"
      by (simp add: s2_def ext_refl ext_update_add split: sum.splits)
    have e3: "ext s2 (update_element a (apply_template t) s2)"
      by (rule ext_update) (simp add: apply_template_def)
    from assms Some n False have "s' = push_element a (update_element a (apply_template t) s2)"
      by (simp add: enter_Create_def s2_def Let_def)
    with e1 e2 e3 show ?thesis
      using ext_push ext_trans by blast
  qed
qed

lemma ext_finish_Define: "finish_Define name v tok s = (r, s') \<Longrightarrow> ext s s'"
  unfolding finish_Define_def define_property_def
  by (auto simp: ext_refl split: if_splits sum.splits option.splits intro!: ext_update)

lemma ext_finish_Assign: "finish_Assign name v tok s = (r, s') \<Longrightarrow> ext s s'"
  unfolding finish_Assign_def set_property_def
  by (auto simp: ext_refl split: if_splits sum.splits option.splits raised.splits intro!: ext_update)

lemma post_same: "post s r s"
  by (simp add: post_def ext_refl stack_after_def split: sum.splits)

lemma post_seq: "post s (Inr x) s1 \<Longrightarrow> post s1 r s2 \<Longrightarrow> post s r s2"
proof -
  assume a: "post s (Inr x) s1" and b: "post s1 r s2"
  then have "ext s s2" by (meson ext_trans post_def)
  moreover from a b have "stack_after s r s2"
    by (cases r) (simp_all add: post_def stack_after_def)
  ultimately show ?thesis by (simp add: post_def)
qed

lemma post_isl: "post s y s' \<Longrightarrow> isl y \<longrightarrow> isl r \<Longrightarrow> post s r s'"
  by (cases y; cases r) (simp_all add: post_def stack_after_def)

lemma elements_update_element [simp]: "elements (update_element a f s) = elements s"
  by (simp add: update_element_def)

lemma enter_Create_stack:
  "enter_Create tn nm tok s = (Inl e, s') \<Longrightarrow> elements s' = elements s"
  "enter_Create tn nm tok s = (Inr a, s') \<Longrightarrow> elements s' = elements s @ [a]"
  by (auto simp: enter_Create_def new_Element_def push_element_def Let_def current_element_def
      split: option.splits if_splits)

lemma post_finish_Define: "finish_Define name v tok s = (r, s') \<Longrightarrow> post s r s'"
  by (frule ext_finish_Define)
    (auto simp: post_def stack_after_def finish_Define_def split: if_splits sum.splits)

lemma post_finish_Assign: "finish_Assign name v tok s = (r, s') \<Longrightarrow> post s r s'"
  by (frule ext_finish_Assign)
    (auto simp: post_def stack_after_def finish_Assign_def split: if_splits sum.splits raised.splits)

lemma build_post:
  "build env n s = (r, s') \<Longrightarrow> post s r s'"
  "build_children env ns s = (rs, s') \<Longrightarrow> post s rs s'"
proof (induction env n s and env ns s arbitrary: r s' and rs s' rule: build_build_children.induct)
  case (1 env k tok cs s)
  note eq = \<open>build env (Node k tok cs) s = (r, s')\<close>
  show ?case
  proof (cases k)
    case (NCreate tn nm)
    obtain x s1 where en: "enter_Create tn nm tok s = (x, s1)" by (cases "enter_Create tn nm tok s")
    then have e1: "ext s s1" by (rule ext_enter_Create)
    show ?thesis
    proof (cases x)
      case (Inl e)
      from en Inl have "elements s1 = elements s" by (simp add: enter_Create_stack(1))
      moreover from eq NCreate en Inl have "r = Inl e" "s' = s1" by simp_all
      ultimately show ?thesis using e1 by (simp add: post_def stack_after_def)
    next
      case (Inr a)
      with en have st1: "elements s1 = elements s @ [a]" by (simp add: enter_Create_stack)
      obtain y s2 where bc: "build_children env cs s1 = (y, s2)" by (cases "build_children env cs s1")
      from 1(1)[OF NCreate en[symmetric] Inr bc] have p2: "post s1 y s2" .
      then have e2: "ext s s2" using e1 ext_trans by (auto simp: post_def)
      show ?thesis
      proof (cases y)
        case (Inl e)
        with eq NCreate en Inr bc have "s' = s2" "r = Inl e" by simp_all
        moreover from p2 Inl st1 have "prefix (elements s @ [a]) (elements s2)"
          by (simp add: post_def stack_after_def)
        then have "prefix (elements s) (elements s2)"
          using append_prefixD by blast
        ultimately show ?thesis using e2 by (simp add: post_def stack_after_def)
      next
        case (Inr vs)
        with p2 st1 have st2: "elements s2 = elements s @ [a]"
          by (simp add: post_def stack_after_def)
        then have "pop_element a s2 = (Inr (), s2\<lparr>elements := elements s\<rparr>)"
          by (simp add: pop_element_def)
        with eq NCreate en \<open>x = Inr a\<close> bc Inr
        have "s' = s2\<lparr>elements := elements s\<rparr>" "r = Inr (ElementObj a)" by simp_all
        with e2 show ?thesis by (simp add: post_def stack_after_def ext_def)
      qed
    qed
  next
    case (NTemplate x1 x2)
    with eq show ?thesis by (auto simp: post_same)
  next
    case NDefine
    show ?thesis
    proof (cases "\<exists>n v name. cs = [n, v] \<and> kind n = NName name")
      case False
      with eq NDefine have "s' = s"
        by (auto split: list.splits kind.splits)
      then show ?thesis by (simp add: post_same)
    next
      case True
      then obtain n v name where cs: "cs = [n, v]" and kn: "kind n = NName name" by blast
      obtain x s1 where b: "build env v s = (x, s1)" by (cases "build env v s")
      from 1(2)[OF NDefine cs refl refl kn b] have e1: "post s x s1" .
      show ?thesis
      proof (cases x)
        case (Inl e)
        with eq NDefine cs kn b have "r = Inl e" "s' = s1" by simp_all
        with e1 Inl show ?thesis by simp
      next
        case (Inr val)
        with eq NDefine cs kn b have "finish_Define name val tok s1 = (r, s')" by simp
        then have "post s1 r s'" by (rule post_finish_Define)
        with e1[unfolded Inr] show ?thesis by (rule post_seq)
      qed
    qed
  next
    case NAssign
    show ?thesis
    proof (cases "\<exists>n v name. cs = [n, v] \<and> kind n = NName name")
      case False
      with eq NAssign have "s' = s"
        by (auto split: list.splits kind.splits)
      then show ?thesis by (simp add: post_same)
    next
      case True
      then obtain n v name where cs: "cs = [n, v]" and kn: "kind n = NName name" by blast
      obtain x s1 where b: "build env v s = (x, s1)" by (cases "build env v s")
      from 1(3)[OF NAssign cs refl refl kn b] have e1: "post s x s1" .
      show ?thesis
      proof (cases x)
        case (Inl e)
        with eq NAssign cs kn b have "r = Inl e" "s' = s1" by simp_all
        with e1 Inl show ?thesis by simp
      next
        case (Inr val)
        with eq NAssign cs kn b have "finish_Assign name val tok s1 = (r, s')" by simp
        then have "post s1 r s'" by (rule post_finish_Assign)
        with e1[unfolded Inr] show ?thesis by (rule post_seq)
      qed
    qed
  next
    case (NUnaryOp op)
    show ?thesis
    proof (cases "length cs \<noteq> 1")
      case True
      with eq NUnaryOp show ?thesis by (simp add: post_same)
    next
      case False
      obtain y s1 where bc: "build_children env cs s = (y, s1)" by (cases "build_children env cs s")
      from 1(4)[OF NUnaryOp False bc] have "post s y s1" .
      moreover from eq NUnaryOp False bc have "s' = s1" "isl y \<longrightarrow> isl r"
        by (auto split: sum.splits list.splits)
      ultimately show ?thesis by (simp add: post_isl)
    qed
  next
    case (NBinOp op)
    show ?thesis
    proof (cases "length cs \<noteq> 2")
      case True
      with eq NBinOp show ?thesis by (simp add: post_same)
    next
      case False
      obtain y s1 where bc: "build_children env cs s = (y, s1)" by (cases "build_children env cs s")
      from 1(5)[OF NBinOp False bc] have "post s y s1" .
      moreover from eq NBinOp False bc have "s' = s1" "isl y \<longrightarrow> isl r"
        by (auto split: sum.splits list.splits)
      ultimately show ?thesis by (simp add: post_isl)
    qed
  next
    case (NNumber v u)
    with eq show ?thesis
      by (auto simp: post_same build_Number_def split: option.splits if_splits)
  next
    case (NString x)
    with eq show ?thesis
      by (auto simp: post_same build_String_def split: option.splits if_splits)
  next
    case (NCall x)
    obtain y s1 where bc: "build_children env cs s = (y, s1)" by (cases "build_children env cs s")
    from 1(6)[OF NCall bc] have "post s y s1" .
    moreover from eq NCall bc have "s' = s1" "isl y \<longrightarrow> isl r"
      by (auto split: sum.splits option.splits)
    ultimately show ?thesis by (simp add: post_isl)
  next
    case (NName x)
    with eq show ?thesis
      by (auto simp: post_same build_Name_def split: option.splits if_splits)
  qed
next
  case (2 env s)
  then show ?case by (simp add: post_same)
next
  case (3 env c cs s)
  note eq = \<open>build_children env (c # cs) s = (rs, s')\<close>
  obtain x s1 where b: "build env c s = (x, s1)" by (cases "build env c s")
  from 3(1)[OF b] have p1: "post s x s1" .
  show ?case
  proof (cases x)
    case (Inl e)
    with eq b have "rs = Inl e" "s' = s1" by simp_all
    with p1 Inl show ?thesis using post_isl[of s x s1 rs] by simp
  next
    case (Inr v)
    obtain y s2 where bc: "build_children env cs s1 = (y, s2)" by (cases "build_children env cs s1")
    from 3(2)[OF b[symmetric] Inr bc] have p2: "post s1 y s2" .
    from eq b Inr bc have "s' = s2" "isl y \<longrightarrow> isl rs" by (auto split: sum.splits)
    moreover from p1[unfolded Inr] p2 have "post s y s2" by (rule post_seq)
    ultimately show ?thesis by (simp add: post_isl)
  qed
qed




lemma ext_length: "ext s s' \<Longrightarrow> p < length (heap s) \<Longrightarrow> p < length (heap s')"
  by (simp add: ext_def)

lemma enter_Create_attach:
  assumes "enter_Create tn nm tok s = (Inr a, s1)"
  shows "a = length (heap s)" and "length (heap s1) = Suc (length (heap s))"
    and "elements s \<noteq> [] \<Longrightarrow> last (elements s) < length (heap s) \<Longrightarrow>
         children (heap s1 ! last (elements s)) = children (heap s ! last (elements s)) @ [a]"
  using assms
  by (auto simp: enter_Create_def new_Element_def push_element_def Let_def current_element_def
      update_element_def add_def apply_template_def Element_def nth_append
      split: option.splits if_splits)


lemma build_ElementObj:
  assumes "build env n s = (Inr (ElementObj a), s')"
  shows "\<exists>tn nm s1. kind n = NCreate tn nm \<and> enter_Create tn nm (token n) s = (Inr a, s1) \<and> ext s1 s'"
proof (cases n)
  case (Node k tok cs)
  show ?thesis
  proof (cases k)
    case (NCreate tn nm)
    obtain x s1 where en: "enter_Create tn nm tok s = (x, s1)" by (cases "enter_Create tn nm tok s")
    obtain y s2 where bc: "build_children env cs s1 = (y, s2)" by (cases "build_children env cs s1")
    obtain z s3 where po: "pop_element (projr x) s2 = (z, s3)" by (cases "pop_element (projr x) s2")
    from assms Node NCreate en bc po have "x = Inr a" and "s' = s3"
      by (auto split: sum.splits)
    moreover from bc have "ext s1 s2" using build_post(2) post_def by blast
    moreover from po have "ext s2 s3" by (rule ext_pop)
    ultimately show ?thesis using Node NCreate en ext_trans by fastforce
  next
    case NDefine
    with assms Node show ?thesis
      by (auto simp: finish_Define_def split: list.splits kind.splits prod.splits sum.splits if_splits)
  next
    case NAssign
    with assms Node show ?thesis
      by (auto simp: finish_Assign_def split: list.splits kind.splits prod.splits sum.splits if_splits raised.splits)
  next
    case (NName x)
    with assms Node show ?thesis
      by (auto simp: build_Name_def scan_elements_find split: option.splits if_splits)
  qed (use assms Node in \<open>auto simp: build_Number_def build_String_def
        split: prod.splits sum.splits if_splits option.splits list.splits\<close>)
qed



lemma map_fst_update: "map_of ps k \<noteq> None \<Longrightarrow> map fst (AList.update k v ps) = map fst ps"
  by (induction ps) auto


lemma build_ElementObj_valid:
  assumes "build env n s = (Inr (ElementObj a), s')"
  shows "a < length (heap s')"
proof -
  from build_ElementObj[OF assms] obtain tn nm s1 where
    en: "enter_Create tn nm (token n) s = (Inr a, s1)" and e: "ext s1 s'" by blast
  from enter_Create_attach(1,2)[OF en] have "a < length (heap s1)" by simp
  with e show ?thesis by (rule ext_length)
qed








lemma isinstance_shift [simp]: "isinstance_Value (shift_val k v) = isinstance_Value v"
  by (cases v) simp_all



lemma shift_Element [simp]: "shift_element k Element = Element"
  by (simp add: shift_element_def Element_def)







lemma type_name_shift [simp]: "type_name (shift_element k e) = type_name e"
  by (simp add: shift_element_def)


lemma sim_length: "sim h0 s b \<Longrightarrow> length (heap b) = length (heap s) + length h0"
  by (simp add: sim_def)























section \<open>The statements of the specification\<close>

text \<open>
  C1. A \<open>Name\<close> node is resolved by scanning the scope stack from the top (innermost) frame
  outward: the result is the reference to the property in the first element whose
  property table contains the name, whatever is bound to it; when no element on the stack
  has the name, the build fails with the builder's error \<open>Undefined property\<close>. The state
  is not changed.
\<close>

theorem build_Name_innermost_first:
  "build env (Node (NName name) tok []) s =
     (case find (\<lambda>a. name \<in> fst ` set (properties (heap s ! a))) (rev (elements s)) of
        Some a \<Rightarrow> (Inr (ElementProperty a name), s)
      | None \<Rightarrow> (Inl (SceneBuilderError (UndefinedProperty name) tok None), s))"
  by (simp add: build_Name_def scan_elements_find create_error_def split: option.splits)

theorem build_Name_innermost_first_witness:
  "build ex_env (Node (NName ''width'') None []) ex_state2 = (Inr (ElementProperty 2 ''width''), ex_state2)
   \<and> build ex_env (Node (NName ''nope'') None []) ex_state2 =
        (Inl (SceneBuilderError (UndefinedProperty ''nope'') None None), ex_state2)"
  using build_Name_innermost_first[of ex_env "''width''" None ex_state2]
    build_Name_innermost_first[of ex_env "''nope''" None ex_state2]
  by (simp add: ex_defs)

text \<open>
  C2. A \<open>BinOp\<close> node with two operands builds its operands in order and returns the
  \<open>BinOp\<close> value of the same operator and the two results; a \<open>UnaryOp\<close> node with one
  operand does the same with its operand. An error of an operand is the error of the
  node. The operator is not applied.
\<close>

theorem build_operators_deferred:
  "build env (Node (NBinOp op) tok [l, r]) s =
     (case build env l s of
        (Inl e, s1) \<Rightarrow> (Inl e, s1)
      | (Inr a, s1) \<Rightarrow>
          (case build env r s1 of
             (Inl e, s2) \<Rightarrow> (Inl e, s2)
           | (Inr b, s2) \<Rightarrow> (Inr (BinOp op a b), s2)))
   \<and> build env (Node (NUnaryOp op) tok [x]) s =
     (case build env x s of
        (Inl e, s1) \<Rightarrow> (Inl e, s1)
      | (Inr a, s1) \<Rightarrow> (Inr (UnaryOp op a), s1))"
  by (simp split: prod.splits sum.splits)

theorem build_operators_deferred_witness:
  "build ex_env (Node (NBinOp ''+'') None [Node (NNumber 1 None) None [], Node (NNumber 2 None) None []]) ex_state =
     (Inr (BinOp ''+'' (Number 1) (Number 2)), ex_state)
   \<and> build ex_env (Node (NUnaryOp ''-'') None [Node (NNumber 1 None) None []]) ex_state =
     (Inr (UnaryOp ''-'' (Number 1)), ex_state)"
  using build_operators_deferred[of ex_env "''+''" None "Node (NNumber 1 None) None []"
      "Node (NNumber 2 None) None []" ex_state]
    build_operators_deferred[of ex_env "''-''" None _ _ ex_state "Node (NNumber 1 None) None []"]
  by (simp add: build_defs)

text \<open>
  C3. A \<open>Number\<close> node is classified by its unit when it is built: no unit gives a
  \<open>Number\<close> of the same scalar, \<open>%\<close> gives a \<open>Percentage\<close>, a value of a \<open>TimeUnit\<close> member
  gives a \<open>Time\<close> of that unit, and any other unit fails the build with the builder's
  error \<open>Unexpected unit\<close>; no value is returned for it.
\<close>

theorem build_Number_classifies:
  "build env (Node (NNumber v unit) tok []) s =
     ((case unit of
         None \<Rightarrow> Inr (Number v)
       | Some u \<Rightarrow>
           if u = ''%'' then Inr (Percentage v)
           else if u \<in> set (time_units env) then Inr (Time v u)
           else Inl (SceneBuilderError (UnexpectedUnit u) tok None)), s)"
  by (simp add: build_Number_def create_error_def split: option.splits)

theorem build_Number_classifies_witness:
  "build ex_env (Node (NNumber 5 None) None []) ex_state = (Inr (Number 5), ex_state)
   \<and> build ex_env (Node (NNumber 5 (Some ''%'')) None []) ex_state = (Inr (Percentage 5), ex_state)
   \<and> build ex_env (Node (NNumber 5 (Some ''ms'')) None []) ex_state = (Inr (Time 5 ''ms''), ex_state)
   \<and> build ex_env (Node (NNumber 5 (Some ''px'')) None []) ex_state =
        (Inl (SceneBuilderError (UnexpectedUnit ''px'') None None), ex_state)"
  using build_Number_classifies[of ex_env 5 None None ex_state]
    build_Number_classifies[of ex_env 5 "Some ''%''" None ex_state]
    build_Number_classifies[of ex_env 5 "Some ''ms''" None ex_state]
    build_Number_classifies[of ex_env 5 "Some ''px''" None ex_state]
  by (simp add: ex_env_def)

text \<open>
  C4. A \<open>Call\<close> node builds its arguments in order and looks the function up in the
  registry. For a name that is not in the registry the lookup \<open>functions[call.name]\<close>
  raises Python's \<open>KeyError\<close>, which the builder does not turn into its own error, unlike
  the lookup of a template in \<open>_build_Create\<close>.
\<close>

theorem build_Call_unknown_function_KeyError:
  "build ex_env (Node (NCall ''nope'') None [Node (NNumber 1 None) None []]) ex_state =
     (Inl (Uncaught (KeyError ''nope'')), ex_state)
   \<and> build ex_env (Node (NCall ''min'') None [Node (NNumber 1 None) None [], Node (NNumber 2 None) None []]) ex_state =
     (Inr (Call (PyFunc ''min'') [Number 1, Number 2]), ex_state)
   \<and> build ex_env (Node (NCreate ''Nope'' None) None []) ex_state =
     (Inl (SceneBuilderError (CreatingUndefinedTemplate ''Nope'') None None), ex_state)"
  by (simp add: ex_defs build_defs)



text \<open>
  C6. An \<open>Assign\<close> node builds its value expression; when the current element has the
  property, its binding is replaced by the value and no other entry is made; when the
  current element does not have it, the build fails with the builder's error
  \<open>Assigning value to undefined property\<close> and the state is the one the value expression
  left. In both cases the names of the element's property table are as before.
\<close>

theorem assign_replaces_existing_binding:
  assumes "build env v s = (Inr val, s1)" and "isinstance_Value val"
    and "elements s \<noteq> []" and "last (elements s) < length (heap s)"
  shows "build env (Node NAssign tok [Node (NName name) tok' cs', v]) s =
           (if name \<in> fst ` set (properties (heap s1 ! last (elements s)))
            then (Inr NoneVal,
                  update_element (last (elements s))
                    (\<lambda>e. e\<lparr>properties := AList.update name val (properties e)\<rparr>) s1)
            else (Inl (SceneBuilderError
                    (AssigningUndefinedProperty name (type_name (heap s1 ! last (elements s)))) tok None), s1))
       \<and> map fst (properties (heap (snd (build env (Node NAssign tok [Node (NName name) tok' cs', v]) s))
                      ! last (elements s)))
           = map fst (properties (heap s1 ! last (elements s)))
       \<and> (name \<in> fst ` set (properties (heap s1 ! last (elements s))) \<longrightarrow>
            map_of (properties (heap (snd (build env (Node NAssign tok [Node (NName name) tok' cs', v]) s))
                      ! last (elements s))) name = Some val)"
proof -
  let ?p = "last (elements s)"
  let ?n = "Node NAssign tok [Node (NName name) tok' cs', v]"
  from build_post(1)[OF assms(1)] have st: "elements s1 = elements s" and e: "ext s s1"
    by (simp_all add: post_def stack_after_def)
  from e assms(4) have v1: "?p < length (heap s1)" by (rule ext_length)
  have cur: "current_element s1 = Inr ?p" using st assms(3) by (simp add: current_element_def)
  have b: "build env ?n s = finish_Assign name val tok s1" using assms(1) by simp
  show ?thesis
  proof (cases "map_of (properties (heap s1 ! ?p)) name")
    case None
    then have "name \<notin> fst ` set (properties (heap s1 ! ?p))" by (simp add: in_keys)
    moreover from None cur assms(2)
    have "finish_Assign name val tok s1 =
        (Inl (SceneBuilderError (AssigningUndefinedProperty name (type_name (heap s1 ! ?p))) tok None), s1)"
      by (simp add: finish_Assign_def set_property_def create_error_def)
    ultimately show ?thesis unfolding b by simp
  next
    case (Some old)
    then have k: "name \<in> fst ` set (properties (heap s1 ! ?p))" by (simp add: in_keys)
    from Some cur assms(2)
    have f: "finish_Assign name val tok s1 =
        (Inr NoneVal, update_element ?p (\<lambda>e. e\<lparr>properties := AList.update name val (properties e)\<rparr>) s1)"
      by (simp add: finish_Assign_def set_property_def update_element_def)
    from v1 have h: "heap (update_element ?p (\<lambda>e. e\<lparr>properties := AList.update name val (properties e)\<rparr>) s1) ! ?p
        = (heap s1 ! ?p)\<lparr>properties := AList.update name val (properties (heap s1 ! ?p))\<rparr>"
      by (simp add: update_element_def)
    from Some have "map fst (AList.update name val (properties (heap s1 ! ?p))) = map fst (properties (heap s1 ! ?p))"
      by (simp add: map_fst_update)
    with k f h show ?thesis unfolding b by (simp add: update_conv')
  qed
qed


theorem assign_replaces_existing_binding_witness:
  "build ex_env (Node (NNumber 50 (Some ''%'')) None []) ex_state = (Inr (Percentage 50), ex_state)
   \<and> isinstance_Value (Percentage (50::int))
   \<and> elements ex_state \<noteq> [] \<and> last (elements ex_state) < length (heap ex_state)
   \<and> build ex_env (Node NAssign None [Node (NName ''width'') None [], Node (NNumber 50 (Some ''%'')) None []]) ex_state =
       (Inr NoneVal, ex_state\<lparr>heap := [\<lparr>type_name = ''Scene'', children = [],
                                          properties = [(''width'', Percentage 50)]\<rparr>]\<rparr>)
   \<and> build ex_env (Node NAssign None [Node (NName ''depth'') None [], Node (NNumber 50 (Some ''%'')) None []]) ex_state =
       (Inl (SceneBuilderError (AssigningUndefinedProperty ''depth'' ''Scene'') None None), ex_state)"
proof -
  have h1: "build ex_env (Node (NNumber 50 (Some ''%'')) None []) ex_state = (Inr (Percentage 50), ex_state)"
    by (simp add: build_defs)
  have h2: "isinstance_Value (Percentage (50::int))" by simp
  have h3: "elements ex_state \<noteq> []" by (simp add: ex_defs)
  have h4: "last (elements ex_state) < length (heap ex_state)" by (simp add: ex_defs)
  from assign_replaces_existing_binding[OF h1 h2 h3 h4, of None "''width''" None "[]"]
    assign_replaces_existing_binding[OF h1 h2 h3 h4, of None "''depth''" None "[]"]
    h1 h2 h3 h4
  show ?thesis by (simp add: ex_defs update_element_def)
qed

text \<open>
  C7. In the interpreter, a \<open>Template\<close> declaration whose name is in the registry when the
  node is visited fails with the interpreter's error \<open>Redeclaration\<close> and leaves the
  registry as it is; a \<open>Template\<close> declaration that returns has registered its prototype
  under its name, which was not in the registry before. In the scene builder every
  \<open>Template\<close> declaration raises \<open>NotImplementedError\<close> and changes nothing.
\<close>

theorem template_declaration:
  "(map_of (itemplates z) name \<noteq> None \<longrightarrow>
      (\<exists>z'. interpret_node em (Node (NTemplate name inh) tok cs) z =
              (Inl (InterpreterError (Redeclaration name) tok), z') \<and> itemplates z' = itemplates z))
   \<and> (\<forall>v z'. interpret_node em (Node (NTemplate name inh) tok cs) z = (Inr v, z') \<longrightarrow>
         map_of (itemplates z) name = None \<and> v = INone \<and>
         map_of (itemplates z') name = Some (TElement (fst (new_element em (store z)))))
   \<and> build env (Node (NTemplate name inh) tok cs) s = (Inl NotImplementedError, s)"
  by (auto simp: ienter_Template_def Let_def register_template_def update_conv'
      split: prod.splits sum.splits option.splits if_splits)



theorem template_declaration_witness:
  "map_of (itemplates ex_istate) ''Scene'' \<noteq> None
   \<and> interpret_node ex_elements (Node (NTemplate ''Scene'' None) None []) ex_istate =
        (Inl (InterpreterError (Redeclaration ''Scene'') None), ex_istate\<lparr>store := [''Scene'']\<rparr>)
   \<and> interpret_node ex_elements (Node (NTemplate ''Card'' (Some ''Rect'')) None []) ex_istate =
        (Inr INone, ex_istate\<lparr>itemplates := internal_templates ex_elements @ [(''Card'', TElement 0)],
                               store := [''Rectangle'', ''Rectangle'']\<rparr>)
   \<and> map_of (internal_templates ex_elements @ [(''Card'', TElement 0)]) ''Card'' = Some (TElement 0)"
  using template_declaration[of ex_istate "''Scene''" ex_elements None None "[]" ex_env ex_state]
    template_declaration[of ex_istate "''Card''" ex_elements "Some ''Rect''" None "[]" ex_env ex_state]
  by (simp add: ex_idefs interpret_defs)

text \<open>
  The scene builder on a \<open>Template\<close> declaration of a name that is in its registry, and
  of a name that is not: neither a \<open>Redeclaration\<close> error nor a registration.
\<close>

theorem template_declaration_counterexample:
  "map_of (templates ex_state) ''Scene'' = Some \<lparr>tname = ''Scene'', tproperties = [(''width'', Number 100)]\<rparr>
   \<and> build ex_env (Node (NTemplate ''Scene'' None) None []) ex_state = (Inl NotImplementedError, ex_state)
   \<and> map_of (templates ex_state) ''Card'' = None
   \<and> build ex_env (Node (NTemplate ''Card'' None) None []) ex_state = (Inl NotImplementedError, ex_state)
   \<and> SceneBuilder_build ex_env (Node (NCreate ''Scene'' None) None [Node (NTemplate ''Scene'' None) None []]) ex_fresh =
        (Inl NotImplementedError,
         \<lparr>templates = templates_dict (list_templates ex_env), elements = [0],
          heap = [\<lparr>type_name = ''Scene'', children = [], properties = [(''width'', Number 100)]\<rparr>]\<rparr>)"
  by (simp add: ex_defs build_defs SceneBuilder_build_def)

text \<open>
  C8. A \<open>Create\<close> node with an instance name never returns an element: the scene builder
  fails with the error of the undefined template or, when the template exists, with
  \<open>NotImplementedError\<close> before the element is added to a parent, before the template is
  applied and before any child is built; the interpreter fails as well.
\<close>

theorem named_instance_fails_fast:
  "x \<noteq> [] \<Longrightarrow>
     build env (Node (NCreate tn (Some x)) tok cs) s =
       (case map_of (templates s) tn of
          None \<Rightarrow> (Inl (SceneBuilderError (CreatingUndefinedTemplate tn) tok None), s)
        | Some t \<Rightarrow> (Inl NotImplementedError, s\<lparr>heap := heap s @ [Element]\<rparr>))
   \<and> isl (fst (SceneBuilder_build env (Node (NCreate tn (Some x)) tok cs) s))
   \<and> isl (fst (interpret_node em (Node (NCreate tn (Some x)) tok cs) z))"
  by (auto simp: enter_Create_def truthy_def new_Element_def create_error_def SceneBuilder_build_def
      ienter_Create_def split: option.splits sum.splits prod.splits)


theorem named_instance_fails_fast_witness:
  "''box'' \<noteq> []
   \<and> build ex_env (Node (NCreate ''Rectangle'' (Some ''box'')) None [ex_bad]) ex_state =
        (Inl NotImplementedError, ex_state\<lparr>heap := heap ex_state @ [Element]\<rparr>)
   \<and> isl (fst (SceneBuilder_build ex_env (Node (NCreate ''Rectangle'' (Some ''box'')) None [ex_bad]) ex_state))
   \<and> isl (fst (interpret_node ex_elements (Node (NCreate ''Rectangle'' (Some ''box'')) None [ex_bad]) ex_istate))"
proof -
  have h: "''box'' \<noteq> []" by simp
  from named_instance_fails_fast[OF h, of ex_env "''Rectangle''" None "[ex_bad]" ex_state ex_elements ex_istate]
  show ?thesis by (simp add: ex_defs templates_dict_def)
qed



text \<open>
  C10. \<open>build\<close> and \<open>interpret\<close> fail their entry assertions on every root node that is not
  a \<open>Create\<close> of \<open>Scene\<close>; when \<open>build\<close> returns, the root was such a node and the value is
  an element of the store whose \<open>type_name\<close> is \<open>Scene\<close>; when \<open>interpret\<close> returns, the value
  is an element that is an instance of \<open>Scene\<close> or is named \<open>Scene\<close>.
\<close>

theorem build_accepts_only_Scene:
  "((\<forall>nm. kind n \<noteq> NCreate ''Scene'' nm) \<longrightarrow>
      SceneBuilder_build env n s = (Inl AssertionError, s) \<and>
      Interpreter_interpret em n z = (Inl AssertionError, z))
   \<and> (\<forall>v s'. SceneBuilder_build env n s = (Inr v, s') \<longrightarrow>
         (\<exists>a nm. kind n = NCreate ''Scene'' nm \<and> v = ElementObj a \<and> a < length (heap s') \<and>
                  type_name (heap s' ! a) = ''Scene''))
   \<and> (\<forall>v z'. Interpreter_interpret em n z = (Inr v, z') \<longrightarrow>
         (\<exists>a nm. kind n = NCreate ''Scene'' nm \<and> v = IElement a \<and>
                  (isinstance_Scene em a (store z') \<or> name_of em a (store z') = ''Scene'')))"
proof (intro conjI allI impI)
  fix v s' assume a: "SceneBuilder_build env n s = (Inr v, s')"
  let ?s0 = "s\<lparr>templates := templates_dict (list_templates env), elements := []\<rparr>"
  from a obtain nm where k: "kind n = NCreate ''Scene'' nm"
    by (auto simp: SceneBuilder_build_def split: kind.splits if_splits)
  obtain r s1 where b: "build env n ?s0 = (r, s1)" by (cases "build env n ?s0")
  from a k b obtain a' where "r = Inr (ElementObj a')" "v = ElementObj a'" "s' = s1"
    "type_name (heap s1 ! a') = ''Scene''"
    by (auto simp: SceneBuilder_build_def split: sum.splits val.splits if_splits)
  moreover from this b have "a' < length (heap s1)" using build_ElementObj_valid by blast
  ultimately show "\<exists>a nm. kind n = NCreate ''Scene'' nm \<and> v = ElementObj a \<and> a < length (heap s') \<and>
                  type_name (heap s' ! a) = ''Scene''"
    using k by blast
qed (auto simp: SceneBuilder_build_def Interpreter_interpret_def split: kind.splits sum.splits
      prod.splits ival.splits if_splits)


theorem build_accepts_only_Scene_witness:
  "SceneBuilder_build ex_env ex_rect ex_fresh = (Inl AssertionError, ex_fresh)
   \<and> Interpreter_interpret ex_elements ex_rect ex_istate = (Inl AssertionError, ex_istate)
   \<and> SceneBuilder_build ex_env ex_scene ex_fresh = (Inr (ElementObj 0), ex_built)
   \<and> kind ex_scene = NCreate ''Scene'' None
   \<and> 0 < length (heap ex_built) \<and> type_name (heap ex_built ! 0) = ''Scene''"
proof -
  have b: "SceneBuilder_build ex_env ex_scene ex_fresh = (Inr (ElementObj 0), ex_built)"
    by (simp add: ex_defs build_defs SceneBuilder_build_def)
  have k: "\<forall>nm. kind ex_rect \<noteq> NCreate ''Scene'' nm" by (simp add: ex_defs)
  from build_accepts_only_Scene[of ex_rect ex_env ex_fresh ex_elements ex_istate] k
    build_accepts_only_Scene[of ex_scene ex_env ex_fresh ex_elements ex_istate] b
  show ?thesis by (auto simp: ex_scene_def)
qed

end
